theory Spec2Isabelle
  imports Main "HOL-Library.AList" "HOL-Library.Sublist"
begin

section \<open>Data model\<close>

text \<open>
  \<^verbatim>\<open>src/front-end/src/types/EnvData.ts\<close> declares the interface \<^verbatim>\<open>EnvData\<close>, one row of
  the OECD data set. The record below has its sixteen fields in the order of the source.

  \<^item> The TypeScript type \<^verbatim>\<open>number\<close> of \<^verbatim>\<open>value\<close> (and of the fields the filters never read)
    is the type parameter \<open>'n\<close>: the filters only copy such a number or add it to another
    one with \<^verbatim>\<open>+=\<close>, so any type with a \<open>0\<close> and a \<open>+\<close> stands for it, IEEE doubles with
    their \<^verbatim>\<open>NaN\<close> included. Nothing below relies on a law of addition unless the sort
    constraint of a lemma says so.
  \<^item> \<^verbatim>\<open>year\<close> is an \<open>int\<close>: the data set carries calendar years, and on integers the strict
    equality \<^verbatim>\<open>===\<close> of the source is plain equality.
  \<^item> The type of the field \<^verbatim>\<open>Measure\<close> is the parameter \<open>'m\<close>. At \<open>'m = string\<close> the record
    is the interface \<^verbatim>\<open>EnvData\<close>. At \<open>'m = string option\<close> it is the row the loader really
    delivers: \<^verbatim>\<open>loadEnvData\<close> declares \<^verbatim>\<open>Measure?: string\<close> and the dashboard casts its
    result with \<^verbatim>\<open>as unknown as EnvData[]\<close>, so at run time the field may be missing.
  \<^item> The field \<^verbatim>\<open>value\<close> is called \<open>value_n\<close> here.
  \<^item> Strings are lists of 8-bit characters; the labels and country codes of the data set
    are ASCII.
\<close>

record ('m, 'n) EnvRow =
  country_code :: string
  frequency :: string
  measure_code :: string
  Measure :: 'm
  erosion_level :: string
  water_type :: string
  nutrient_type :: string
  Nutrients :: string
  unit :: string
  year :: int
  value_n :: 'n
  decimals :: 'n
  Decimals :: string
  status :: string
  UNIT_MULT :: 'n
  BASE_PER :: "'n option"

type_synonym 'n EnvData = "(string, 'n) EnvRow"

type_synonym 'n EnvDataRecord = "(string option, 'n) EnvRow"

text \<open>
  The object \<^verbatim>\<open>{ country, year, value }\<close> that \<^verbatim>\<open>filterProtectionCoefficient\<close> builds for
  each row it keeps.
\<close>

record 'n FilteredTuple =
  ft_country :: string
  ft_year :: int
  ft_value :: 'n

section \<open>Strings\<close>

text \<open>
  \<^verbatim>\<open>String.prototype.toLowerCase\<close> on ASCII text: the letters \<^verbatim>\<open>A\<close> to \<^verbatim>\<open>Z\<close> (codes 65 to 90)
  move to \<^verbatim>\<open>a\<close> to \<^verbatim>\<open>z\<close>, every other character stays.
\<close>

definition lower_char :: "char \<Rightarrow> char" where
  "lower_char c =
     (let n = (of_char c :: nat) in if 65 \<le> n \<and> n \<le> 90 then char_of (n + 32) else c)"

definition toLowerCase :: "string \<Rightarrow> string" where
  "toLowerCase s = map lower_char s"

text \<open>
  \<^verbatim>\<open>String.prototype.includes\<close>: does \<open>sub\<close> occur in \<open>s\<close> as a contiguous run of characters,
  at any position. (\<open>includes\<close> is a keyword of Isabelle, hence the suffix.)
\<close>

fun includes_str :: "string \<Rightarrow> string \<Rightarrow> bool" where
  "includes_str [] sub = (sub = [])"
| "includes_str (c # s) sub = (prefix sub (c # s) \<or> includes_str s sub)"

section \<open>The filters of \<^verbatim>\<open>filter.ts\<close>\<close>

text \<open>
  The calls of \<^verbatim>\<open>console.log\<close> in \<^verbatim>\<open>filterProtectionCoefficient\<close> write diagnostics and
  do not touch the value returned; they are left out.
\<close>

definition filterProtectionCoefficient :: "'n EnvData list \<Rightarrow> 'n FilteredTuple list" where
  "filterProtectionCoefficient data =
     map (\<lambda>d. \<lparr>ft_country = country_code d, ft_year = year d, ft_value = value_n d\<rparr>)
       (filter (\<lambda>d. Measure d = ''Producer Nominal Protection Coefficient'') data)"

text \<open>
  The parameter \<^verbatim>\<open>nutrient: "Nitrogen" | "Phosphorus"\<close> of \<^verbatim>\<open>getNutrientSurplusByCountry\<close>
  is a union of two string literals.
\<close>

datatype Nutrient = Nitrogen | Phosphorus

fun nutrient_name :: "Nutrient \<Rightarrow> string" where
  "nutrient_name Nitrogen = ''Nitrogen''"
| "nutrient_name Phosphorus = ''Phosphorus''"

definition getNutrientSurplusByCountry ::
    "'n EnvData list \<Rightarrow> Nutrient \<Rightarrow> int \<Rightarrow> 'n EnvData list" where
  "getNutrientSurplusByCountry data nutrient y =
     filter (\<lambda>d. year d = y \<and> nutrient_type d = nutrient_name nutrient \<and>
                 includes_str (toLowerCase (Measure d)) ''surplus'') data"

definition groupByMeasure :: "'n EnvData list \<Rightarrow> string \<Rightarrow> int \<Rightarrow> 'n EnvData list" where
  "groupByMeasure data nutrient y =
     filter (\<lambda>d. nutrient_type d = nutrient \<and> year d = y \<and>
                 includes_str (toLowerCase (Measure d)) ''surplus'') data"

subsection \<open>\<^verbatim>\<open>getScatterData\<close>\<close>

text \<open>
  The two subsets that \<^verbatim>\<open>getScatterData\<close> filters out of the data: the constants
  \<^verbatim>\<open>nitrogenInput\<close> and \<^verbatim>\<open>livestock\<close> of the source (the second one is \<open>livestockRows\<close>
  here, \<open>livestock\<close> being also a field of the entries).
\<close>

definition nitrogenInput :: "'n EnvData list \<Rightarrow> int \<Rightarrow> 'n EnvData list" where
  "nitrogenInput data y =
     filter (\<lambda>d. nutrient_type d = ''Nitrogen'' \<and>
                 includes_str (toLowerCase (Measure d)) ''input'' \<and> year d = y) data"

definition livestockRows :: "'n EnvData list \<Rightarrow> int \<Rightarrow> 'n EnvData list" where
  "livestockRows data y =
     filter (\<lambda>d. includes_str (toLowerCase (Measure d)) ''livestock'' \<and> year d = y) data"

text \<open>
  The values of the lookup map are objects \<^verbatim>\<open>{ nitrogen, livestock }\<close>; the function returns
  \<^verbatim>\<open>{ country, ...values }\<close>, the same two fields and the country (the record lists the
  country last; the fields are read by name).
\<close>

record 'n Entry =
  nitrogen :: 'n
  livestock :: 'n

record 'n JoinedPair = "'n Entry" +
  country :: string

text \<open>
  The \<^verbatim>\<open>Map\<close> of the source keeps its keys in insertion order, and \<^verbatim>\<open>map.set\<close> on a key
  that is already there replaces the value where the key stands. An association list
  with \<^const>\<open>AList.update\<close> does exactly that; \<^verbatim>\<open>map.get\<close> is \<^const>\<open>map_of\<close> and
  \<^verbatim>\<open>Array.from(map.entries())\<close> is the list itself.

  \<open>seedEntry\<close> is the body of \<^verbatim>\<open>nitrogenInput.forEach\<close>, \<open>addLivestock\<close> the body of
  \<^verbatim>\<open>livestock.forEach\<close>: the entry found is an object shared with the map, so
  \<^verbatim>\<open>entry.livestock += row.value\<close> changes the value stored under the key. An entry that
  is found is an object and hence truthy. Neither body reads \<^verbatim>\<open>Measure\<close>.
\<close>

definition seedEntry ::
    "(string \<times> 'n Entry) list \<Rightarrow> ('m, 'n::{zero,plus}) EnvRow \<Rightarrow> (string \<times> 'n Entry) list" where
  "seedEntry m row =
     AList.update (country_code row) \<lparr>nitrogen = value_n row, livestock = 0\<rparr> m"

definition addLivestock ::
    "(string \<times> 'n Entry) list \<Rightarrow> ('m, 'n::{zero,plus}) EnvRow \<Rightarrow> (string \<times> 'n Entry) list" where
  "addLivestock m row =
     (case map_of m (country_code row) of
        None \<Rightarrow> m
      | Some entry \<Rightarrow>
          AList.update (country_code row)
            (entry\<lparr>livestock := livestock entry + value_n row\<rparr>) m)"

definition joinByCountry ::
    "('m, 'n::{zero,plus}) EnvRow list \<Rightarrow> ('m, 'n) EnvRow list \<Rightarrow> 'n JoinedPair list" where
  "joinByCountry first_subset second_subset =
     map (\<lambda>(c, values).
            \<lparr>nitrogen = nitrogen values, livestock = livestock values, country = c\<rparr>)
       (foldl addLivestock (foldl seedEntry [] first_subset) second_subset)"

definition getScatterData :: "'n::{zero,plus} EnvData list \<Rightarrow> int \<Rightarrow> 'n JoinedPair list" where
  "getScatterData data y = joinByCountry (nitrogenInput data y) (livestockRows data y)"

section \<open>The grouping of \<^verbatim>\<open>TimeSeries\<close>\<close>

text \<open>
  \<^verbatim>\<open>TimeSeries\<close> keeps the rows of the protection coefficient for the selected countries and
  groups them in the object \<^verbatim>\<open>grouped\<close>, one row object \<^verbatim>\<open>{ year, [country_code]: value }\<close>
  per year. A row object is a finite map from property names to numbers; the tag of a
  cell only says which of the two number types of this theory the number has.

  The row objects are plain objects, so their prototype is \<^verbatim>\<open>Object.prototype\<close>, and
  \<^verbatim>\<open>__proto__\<close> is an accessor property of it: the assignment \<^verbatim>\<open>row["__proto__"] = v\<close> calls
  the inherited setter, which does nothing when \<open>v\<close> is a number, and no own property is
  created. Every other property name is created or overwritten. \<open>set_prop\<close> is that
  assignment. (The keys of \<^verbatim>\<open>grouped\<close> itself are years, written as decimal numerals, and
  never meet a property of the prototype.)
\<close>

datatype 'n cell = YearCell int | ValueCell 'n

type_synonym 'n YearKeyedRow = "string \<rightharpoonup> 'n cell"

definition set_prop :: "'n YearKeyedRow \<Rightarrow> string \<Rightarrow> 'n cell \<Rightarrow> 'n YearKeyedRow" where
  "set_prop row k v = (if k = ''__proto__'' then row else row(k \<mapsto> v))"

text \<open>
  The body of \<^verbatim>\<open>filtered.forEach\<close>. After the first statement the bucket of the year
  exists, so the second branch of the \<open>case\<close> is the one taken.
\<close>

definition groupStep ::
    "(int \<rightharpoonup> 'n YearKeyedRow) \<Rightarrow> 'n EnvData \<Rightarrow> (int \<rightharpoonup> 'n YearKeyedRow)" where
  "groupStep grouped d =
     (let grouped1 =
            (if grouped (year d) = None
             then grouped(year d \<mapsto> [''year'' \<mapsto> YearCell (year d)])
             else grouped)
      in case grouped1 (year d) of
           None \<Rightarrow> grouped1
         | Some row \<Rightarrow>
             grouped1(year d \<mapsto> set_prop row (country_code d) (ValueCell (value_n d))))"

text \<open>
  The object \<^verbatim>\<open>grouped\<close> when the loop is over. The chart data is
  \<^verbatim>\<open>Object.values(grouped)\<close> sorted by year; the sort moves rows and leaves their fields
  alone, and is not modelled.
\<close>

definition TimeSeries_grouped ::
    "'n EnvData list \<Rightarrow> string list \<Rightarrow> (int \<rightharpoonup> 'n YearKeyedRow)" where
  "TimeSeries_grouped data selectedCountries =
     foldl groupStep Map.empty
       (filter (\<lambda>d. Measure d = ''Producer Nominal Protection Coefficient'' \<and>
                    country_code d \<in> set selectedCountries) data)"

section \<open>The filter with a keyword\<close>



section \<open>The filters on rows as they are loaded\<close>

text \<open>
  The same four functions of \<^verbatim>\<open>filter.ts\<close> at run time, on rows whose \<^verbatim>\<open>Measure\<close> may be
  missing (\<open>None\<close>). \<^verbatim>\<open>d.Measure === "..."\<close> is then false; \<^verbatim>\<open>d.Measure.toLowerCase()\<close> throws
  a \<^verbatim>\<open>TypeError\<close>, which leaves \<^verbatim>\<open>Array.prototype.filter\<close> and the function that called
  it. The operator \<^verbatim>\<open>&&\<close> evaluates its right operand only when the left one is true, so
  the order of the conjuncts decides whether the method call is reached.
\<close>

datatype error = TypeError

fun filter_raise :: "('a \<Rightarrow> error + bool) \<Rightarrow> 'a list \<Rightarrow> error + 'a list" where
  "filter_raise p [] = Inr []"
| "filter_raise p (x # xs) =
     (case p x of
        Inl e \<Rightarrow> Inl e
      | Inr b \<Rightarrow>
          (case filter_raise p xs of
             Inl e \<Rightarrow> Inl e
           | Inr ys \<Rightarrow> Inr (if b then x # ys else ys)))"

definition measureIncludes :: "string option \<Rightarrow> string \<Rightarrow> error + bool" where
  "measureIncludes m keyword =
     (case m of
        None \<Rightarrow> Inl TypeError
      | Some s \<Rightarrow> Inr (includes_str (toLowerCase s) keyword))"

definition filterProtectionCoefficient_loaded ::
    "'n EnvDataRecord list \<Rightarrow> error + 'n FilteredTuple list" where
  "filterProtectionCoefficient_loaded data =
     Inr (map (\<lambda>d. \<lparr>ft_country = country_code d, ft_year = year d, ft_value = value_n d\<rparr>)
            (filter (\<lambda>d. Measure d = Some ''Producer Nominal Protection Coefficient'') data))"

definition getNutrientSurplusByCountry_loaded ::
    "'n EnvDataRecord list \<Rightarrow> Nutrient \<Rightarrow> int \<Rightarrow> error + 'n EnvDataRecord list" where
  "getNutrientSurplusByCountry_loaded data nutrient y =
     filter_raise
       (\<lambda>d. if year d = y \<and> nutrient_type d = nutrient_name nutrient
             then measureIncludes (Measure d) ''surplus'' else Inr False) data"

definition groupByMeasure_loaded ::
    "'n EnvDataRecord list \<Rightarrow> string \<Rightarrow> int \<Rightarrow> error + 'n EnvDataRecord list" where
  "groupByMeasure_loaded data nutrient y =
     filter_raise
       (\<lambda>d. if nutrient_type d = nutrient \<and> year d = y
             then measureIncludes (Measure d) ''surplus'' else Inr False) data"

definition getScatterData_loaded ::
    "'n::{zero,plus} EnvDataRecord list \<Rightarrow> int \<Rightarrow> error + 'n JoinedPair list" where
  "getScatterData_loaded data y =
     (case filter_raise
             (\<lambda>d. if nutrient_type d = ''Nitrogen''
                   then (case measureIncludes (Measure d) ''input'' of
                           Inl e \<Rightarrow> Inl e
                         | Inr b \<Rightarrow> Inr (b \<and> year d = y))
                   else Inr False) data of
        Inl e \<Rightarrow> Inl e
      | Inr first_subset \<Rightarrow>
          (case filter_raise
                  (\<lambda>d. case measureIncludes (Measure d) ''livestock'' of
                          Inl e \<Rightarrow> Inl e
                        | Inr b \<Rightarrow> Inr (b \<and> year d = y)) data of
             Inl e \<Rightarrow> Inl e
           | Inr second_subset \<Rightarrow> Inr (joinByCountry first_subset second_subset)))"

text \<open>
  A row that has the type \<^verbatim>\<open>EnvData\<close>, seen as a loaded row: every field as it is, the
  measure present. The cast \<^verbatim>\<open>as unknown as EnvData[]\<close> of the dashboard goes the other
  way and checks nothing.
\<close>

definition loaded :: "'n EnvData \<Rightarrow> 'n EnvDataRecord" where
  "loaded d =
     \<lparr>country_code = country_code d, frequency = frequency d,
      measure_code = measure_code d, Measure = Some (Measure d),
      erosion_level = erosion_level d, water_type = water_type d,
      nutrient_type = nutrient_type d, Nutrients = Nutrients d, unit = unit d,
      year = year d, value_n = value_n d, decimals = decimals d,
      Decimals = Decimals d, status = status d, UNIT_MULT = UNIT_MULT d,
      BASE_PER = BASE_PER d\<rparr>"

section \<open>Sample rows\<close>

text \<open>
  A row with the five fields the filters read and nothing in the others, for the
  concrete instances below.
\<close>

definition sample_row :: "string \<Rightarrow> 'm \<Rightarrow> string \<Rightarrow> int \<Rightarrow> int \<Rightarrow> ('m, int) EnvRow" where
  "sample_row c m nt y v =
     \<lparr>country_code = c, frequency = [], measure_code = [], Measure = m,
      erosion_level = [], water_type = [], nutrient_type = nt, Nutrients = [],
      unit = [], year = y, value_n = v, decimals = 0, Decimals = [], status = [],
      UNIT_MULT = 0, BASE_PER = None\<rparr>"

text \<open>
  Rows for the scatter data of the year 2020: Argentina with two nitrogen-input rows and
  two livestock rows, Uruguay with a livestock row only, Brazil with a nitrogen-input row
  only, and a row of another year.
\<close>

definition scatter_rows :: "int EnvData list" where
  "scatter_rows =
     [sample_row ''ARG'' ''Nutrient inputs'' ''Nitrogen'' 2020 10,
      sample_row ''ARG'' ''Livestock: cattle'' [] 2020 3,
      sample_row ''URY'' ''Livestock: cattle'' [] 2020 7,
      sample_row ''BRA'' ''Nutrient inputs'' ''Nitrogen'' 2020 4,
      sample_row ''ARG'' ''Livestock: pigs'' [] 2020 2,
      sample_row ''ARG'' ''Nutrient inputs'' ''Nitrogen'' 2020 11,
      sample_row ''ARG'' ''Nutrient inputs'' ''Nitrogen'' 2021 99]"

section \<open>Notions used to state the properties\<close>

text \<open>
  The order in which the elements of a list are met for the first time: the head stays
  in front and its later copies go.
\<close>

fun encounter_order :: "'a list \<Rightarrow> 'a list" where
  "encounter_order [] = []"
| "encounter_order (k # ks) = k # filter (\<lambda>k'. k' \<noteq> k) (encounter_order ks)"

text \<open>
  The pair expected for the country \<open>c\<close>: the nitrogen of the last row of the first subset
  for \<open>c\<close>, and the values of the rows of the second subset for \<open>c\<close>, added from left to
  right onto the seed \<open>0\<close>.
\<close>

definition joinedPair ::
    "('m, 'n::{zero,plus}) EnvRow list \<Rightarrow> ('m, 'n) EnvRow list \<Rightarrow> string \<Rightarrow> 'n JoinedPair" where
  "joinedPair first_subset second_subset c =
     \<lparr>nitrogen = value_n (last (filter (\<lambda>d. country_code d = c) first_subset)),
      livestock =
        foldl (+) 0 (map value_n (filter (\<lambda>d. country_code d = c) second_subset)),
      country = c\<rparr>"

section \<open>Filtering by the measure\<close>

lemma filter_by_index:
  "filter P xs = map ((!) xs) (filter (\<lambda>i. P (xs ! i)) [0..<length xs])"
proof -
  have "filter P xs = filter P (map ((!) xs) [0..<length xs])"
    by (simp only: map_nth)
  also have "\<dots> = map ((!) xs) (filter (P \<circ> (!) xs) [0..<length xs])"
    by (rule filter_map)
  finally show ?thesis by (simp only: comp_def)
qed

lemma filterProtectionCoefficient_by_index:
  "filterProtectionCoefficient R =
     map (\<lambda>i. \<lparr>ft_country = country_code (R ! i), ft_year = year (R ! i),
                ft_value = value_n (R ! i)\<rparr>)
       (filter (\<lambda>i. Measure (R ! i) = ''Producer Nominal Protection Coefficient'')
          [0..<length R])"
  unfolding filterProtectionCoefficient_def
  by (subst filter_by_index) (simp add: comp_def)

lemma length_filterProtectionCoefficient:
  "length (filterProtectionCoefficient R) =
     count_list (map Measure R) ''Producer Nominal Protection Coefficient''"
  unfolding filterProtectionCoefficient_def
  by (induction R) auto

text \<open>
  C1. \<^verbatim>\<open>filterProtectionCoefficient\<close> returns one tuple \<^verbatim>\<open>{country, year, value}\<close> for each
  record of \<open>R\<close> whose \<^verbatim>\<open>Measure\<close> is exactly the string
  \<^verbatim>\<open>Producer Nominal Protection Coefficient\<close>, in the order of those records in \<open>R\<close>: the
  result is the list of the tuples of the records at the matching positions, the
  positions taken in increasing order. Its length is the number of such records, and
  when no record matches it is the empty list.
\<close>

theorem filterProtectionCoefficient_one_tuple_per_match:
  "filterProtectionCoefficient R =
     map (\<lambda>i. \<lparr>ft_country = country_code (R ! i), ft_year = year (R ! i),
                ft_value = value_n (R ! i)\<rparr>)
       (filter (\<lambda>i. Measure (R ! i) = ''Producer Nominal Protection Coefficient'')
          [0..<length R])
   \<and> length (filterProtectionCoefficient R) =
       count_list (map Measure R) ''Producer Nominal Protection Coefficient''
   \<and> ((\<forall>d \<in> set R. Measure d \<noteq> ''Producer Nominal Protection Coefficient'') \<longrightarrow>
        filterProtectionCoefficient R = [])"
proof (intro conjI impI)
  assume "\<forall>d \<in> set R. Measure d \<noteq> ''Producer Nominal Protection Coefficient''"
  then show "filterProtectionCoefficient R = []"
    by (simp add: filterProtectionCoefficient_def filter_empty_conv)
qed (rule filterProtectionCoefficient_by_index, rule length_filterProtectionCoefficient)

text \<open>
  The first scenario of the spec, with a third record whose measure differs from the
  label in the case of its letters only: one tuple comes out of the three records. A
  record set without the label gives the empty list.
\<close>

theorem filterProtectionCoefficient_one_tuple_per_match_witness:
  "''Producer Nominal Protection Coefficient''
       \<notin> Measure ` set [sample_row ''BRA'' ''Other'' [] 2000 5]
   \<and> filterProtectionCoefficient [sample_row ''BRA'' ''Other'' [] 2000 5] = []
   \<and> filterProtectionCoefficient
        [sample_row ''ARG'' ''Producer Nominal Protection Coefficient'' [] 2000 12,
         sample_row ''BRA'' ''Other'' [] 2000 5,
         sample_row ''CHL'' ''producer nominal protection coefficient'' [] 2000 7]
       = [\<lparr>ft_country = ''ARG'', ft_year = 2000, ft_value = 12\<rparr>]
   \<and> length (filterProtectionCoefficient
        [sample_row ''ARG'' ''Producer Nominal Protection Coefficient'' [] 2000 12,
         sample_row ''BRA'' ''Other'' [] 2000 5,
         sample_row ''CHL'' ''producer nominal protection coefficient'' [] 2000 7]) = 1"
proof -
  let ?R0 = "[sample_row ''BRA'' ''Other'' [] 2000 (5::int)]"
  let ?R1 = "[sample_row ''ARG'' ''Producer Nominal Protection Coefficient'' [] 2000 (12::int),
              sample_row ''BRA'' ''Other'' [] 2000 5,
              sample_row ''CHL'' ''producer nominal protection coefficient'' [] 2000 7]"
  have none: "\<forall>d \<in> set ?R0. Measure d \<noteq> ''Producer Nominal Protection Coefficient''"
    by (simp add: sample_row_def)
  with filterProtectionCoefficient_one_tuple_per_match [of ?R0]
  have empty: "filterProtectionCoefficient ?R0 = []"
    by blast
  from filterProtectionCoefficient_one_tuple_per_match [of ?R1]
  have tuples: "filterProtectionCoefficient ?R1 =
      [\<lparr>ft_country = ''ARG'', ft_year = 2000, ft_value = 12\<rparr>]"
    and count: "length (filterProtectionCoefficient ?R1) = 1"
    by (simp_all add: sample_row_def upt_rec [of 0] upt_rec [of 1] upt_rec [of 2]
        upt_rec [of 3])
  from none have "''Producer Nominal Protection Coefficient'' \<notin> Measure ` set ?R0"
    by auto
  with empty tuples count show ?thesis by blast
qed

section \<open>The join of \<^verbatim>\<open>getScatterData\<close>\<close>

subsection \<open>The order of first encounter\<close>

lemma set_encounter_order: "set (encounter_order ks) = set ks"
  by (induction ks) auto

lemma distinct_encounter_order: "distinct (encounter_order ks)"
  by (induction ks) auto

lemma encounter_order_snoc:
  "encounter_order (ks @ [k]) =
     (if k \<in> set ks then encounter_order ks else encounter_order ks @ [k])"
  by (induction ks) auto

lemma filter_eq_distinct:
  "distinct ks \<Longrightarrow> filter (\<lambda>k. k = c) ks = (if c \<in> set ks then [c] else [])"
  by (induction ks) auto

subsection \<open>The first pass: seeding the lookup map\<close>

lemma seedEntry_keys:
  "map fst (seedEntry m x) =
     (if country_code x \<in> set (map fst m) then map fst m
      else map fst m @ [country_code x])"
  by (simp add: seedEntry_def update_keys)

lemma seed_keys:
  "map fst (foldl seedEntry [] xs) = encounter_order (map country_code xs)"
proof (induction xs rule: rev_induct)
  case Nil
  show ?case by simp
next
  case (snoc x xs)
  show ?case
    by (simp add: seedEntry_keys snoc.IH encounter_order_snoc set_encounter_order)
qed

lemma seed_lookup:
  "map_of (foldl seedEntry [] xs) c =
     (if c \<in> country_code ` set xs
      then Some \<lparr>nitrogen = value_n (last (filter (\<lambda>d. country_code d = c) xs)),
                 livestock = 0\<rparr>
      else None)"
proof (induction xs rule: rev_induct)
  case Nil
  show ?case by simp
next
  case (snoc x xs)
  then show ?case
    by (auto simp: seedEntry_def update_conv')
qed

subsection \<open>The second pass: adding the livestock values\<close>

lemma addLivestock_keys: "map fst (addLivestock m row) = map fst m"
proof (cases "map_of m (country_code row)")
  case None
  then show ?thesis by (simp add: addLivestock_def)
next
  case (Some e)
  then have "country_code row \<in> set (map fst m)"
    by (metis map_of_eq_None_iff option.distinct(1) set_map)
  with Some show ?thesis by (simp add: addLivestock_def update_keys)
qed

lemma accumulate_keys: "map fst (foldl addLivestock m ys) = map fst m"
  by (induction ys arbitrary: m) (simp_all add: addLivestock_keys)

lemma addLivestock_lookup:
  "map_of (addLivestock m row) c =
     (if country_code row = c
      then map_option (\<lambda>e. e\<lparr>livestock := livestock e + value_n row\<rparr>) (map_of m c)
      else map_of m c)"
  by (cases "map_of m (country_code row)") (auto simp: addLivestock_def update_conv')

lemma accumulate_lookup:
  "map_of (foldl addLivestock m ys) c =
     map_option
       (\<lambda>e. e\<lparr>livestock :=
               foldl (+) (livestock e)
                 (map value_n (filter (\<lambda>d. country_code d = c) ys))\<rparr>)
       (map_of m c)"
proof (induction ys arbitrary: m)
  case Nil
  show ?case by (cases "map_of m c") simp_all
next
  case (Cons y ys)
  show ?case
    by (cases "map_of m c") (simp_all add: Cons.IH addLivestock_lookup)
qed

subsection \<open>The entries of the map, read key by key\<close>

lemma alist_by_keys:
  "distinct (map fst m) \<Longrightarrow>
     map (\<lambda>(k, v). f k v) m = map (\<lambda>k. f k (the (map_of m k))) (map fst m)"
proof (induction m)
  case Nil
  show ?case by simp
next
  case (Cons p m)
  obtain k v where p: "p = (k, v)" by (cases p)
  from Cons.prems p have fresh: "k \<notin> fst ` set m" and dist: "distinct (map fst m)"
    by simp_all
  have "map (\<lambda>k'. f k' (the (map_of (p # m) k'))) (map fst m) =
        map (\<lambda>k'. f k' (the (map_of m k'))) (map fst m)"
  proof (rule map_cong [OF refl])
    fix k' assume "k' \<in> set (map fst m)"
    with fresh have "k' \<noteq> k" by auto
    then show "f k' (the (map_of (p # m) k')) = f k' (the (map_of m k'))"
      by (simp add: p)
  qed
  with Cons.IH [OF dist] show ?case by (simp add: p)
qed

text \<open>
  The whole join: one pair per country of the first subset, in the order of first
  encounter.
\<close>

lemma joinByCountry_eq:
  "joinByCountry xs ys = map (joinedPair xs ys) (encounter_order (map country_code xs))"
proof -
  let ?m0 = "foldl seedEntry [] xs"
  let ?m1 = "foldl addLivestock ?m0 ys"
  have keys: "map fst ?m1 = encounter_order (map country_code xs)"
    by (simp only: accumulate_keys seed_keys)
  then have dist: "distinct (map fst ?m1)"
    by (simp only: distinct_encounter_order)
  have "joinByCountry xs ys =
          map (\<lambda>c. \<lparr>nitrogen = nitrogen (the (map_of ?m1 c)),
                     livestock = livestock (the (map_of ?m1 c)), country = c\<rparr>)
            (map fst ?m1)"
    unfolding joinByCountry_def by (rule alist_by_keys [OF dist])
  also have "\<dots> = map (joinedPair xs ys) (map fst ?m1)"
  proof (rule map_cong [OF refl])
    fix c assume "c \<in> set (map fst ?m1)"
    then have "c \<in> country_code ` set xs"
      by (simp only: keys set_encounter_order set_map)
    then show "\<lparr>nitrogen = nitrogen (the (map_of ?m1 c)),
                 livestock = livestock (the (map_of ?m1 c)), country = c\<rparr> =
               joinedPair xs ys c"
      by (simp add: accumulate_lookup seed_lookup joinedPair_def)
  qed
  finally show ?thesis by (simp only: keys)
qed

lemma country_joinedPair: "country (joinedPair xs ys c) = c"
  by (simp add: joinedPair_def)

lemma countries_joinByCountry:
  "map country (joinByCountry xs ys) = encounter_order (map country_code xs)"
  by (simp add: joinByCountry_eq comp_def country_joinedPair)

lemma pairs_of_country:
  "filter (\<lambda>p. country p = c) (joinByCountry xs ys) =
     (if c \<in> country_code ` set xs then [joinedPair xs ys c] else [])"
proof -
  have "filter (\<lambda>p. country p = c) (joinByCountry xs ys) =
          map (joinedPair xs ys) (filter (\<lambda>k. k = c) (encounter_order (map country_code xs)))"
    by (simp add: joinByCountry_eq filter_map comp_def country_joinedPair)
  then show ?thesis
    by (simp add: filter_eq_distinct distinct_encounter_order set_encounter_order)
qed

text \<open>
  Where addition is associative and \<open>0\<close> is neutral, adding from left to right onto
  \<open>0\<close> is the sum of the list.
\<close>

lemma foldl_plus_sum_list: "foldl (+) a xs = (a :: 'a::monoid_add) + sum_list xs"
  by (induction xs arbitrary: a) (simp_all add: add.assoc)

subsection \<open>The sample rows\<close>

lemma nitrogenInput_scatter_rows:
  "nitrogenInput scatter_rows 2020 =
     [sample_row ''ARG'' ''Nutrient inputs'' ''Nitrogen'' 2020 10,
      sample_row ''BRA'' ''Nutrient inputs'' ''Nitrogen'' 2020 4,
      sample_row ''ARG'' ''Nutrient inputs'' ''Nitrogen'' 2020 11]"
  by code_simp

lemma livestockRows_scatter_rows:
  "livestockRows scatter_rows 2020 =
     [sample_row ''ARG'' ''Livestock: cattle'' [] 2020 3,
      sample_row ''URY'' ''Livestock: cattle'' [] 2020 7,
      sample_row ''ARG'' ''Livestock: pigs'' [] 2020 2]"
  by code_simp

lemma getScatterData_scatter_rows:
  "getScatterData scatter_rows 2020 =
     [\<lparr>nitrogen = 11, livestock = 5, country = ''ARG''\<rparr>,
      \<lparr>nitrogen = 4, livestock = 0, country = ''BRA''\<rparr>]"
  by code_simp

subsection \<open>Accumulation\<close>

text \<open>
  C3. \<^verbatim>\<open>getScatterData\<close> accumulates on the second pass. For a country \<open>c\<close> of the first
  (nitrogen-input) subset the output has exactly one pair for \<open>c\<close>, and its \<^verbatim>\<open>livestock\<close>
  field is the sum of the values of all rows of the second (livestock) subset for \<open>c\<close>:
  the values added one after the other, in the order of the rows, onto the seed \<open>0\<close>,
  as \<^verbatim>\<open>+=\<close> does. When the second subset has no row for \<open>c\<close> the field is the seed \<open>0\<close>.
\<close>

theorem getScatterData_accumulates:
  fixes data :: "'n::{zero,plus} EnvData list"
  assumes "c \<in> country_code ` set (nitrogenInput data y)"
  shows "map livestock (filter (\<lambda>p. country p = c) (getScatterData data y)) =
           [foldl (+) 0
              (map value_n (filter (\<lambda>d. country_code d = c) (livestockRows data y)))]
         \<and> (c \<notin> country_code ` set (livestockRows data y) \<longrightarrow>
              map livestock (filter (\<lambda>p. country p = c) (getScatterData data y)) = [0])"
proof -
  have none: "filter (\<lambda>d. country_code d = c) (livestockRows data y) = []"
    if "c \<notin> country_code ` set (livestockRows data y)"
    using that by (auto simp: filter_empty_conv)
  from assms
  have "map livestock (filter (\<lambda>p. country p = c) (getScatterData data y)) =
          [foldl (+) 0
             (map value_n (filter (\<lambda>d. country_code d = c) (livestockRows data y)))]"
    by (simp add: getScatterData_def pairs_of_country joinedPair_def)
  with none show ?thesis by simp
qed

text \<open>
  The third scenario of the spec inside the sample rows: Argentina has the livestock
  values 3 and 2, and Brazil, a country of the first subset, has none.
\<close>

theorem getScatterData_accumulates_witness:
  "''ARG'' \<in> country_code ` set (nitrogenInput scatter_rows 2020)
   \<and> map livestock (filter (\<lambda>p. country p = ''ARG'') (getScatterData scatter_rows 2020)) = [5]
   \<and> ''BRA'' \<in> country_code ` set (nitrogenInput scatter_rows 2020)
   \<and> ''BRA'' \<notin> country_code ` set (livestockRows scatter_rows 2020)
   \<and> map livestock (filter (\<lambda>p. country p = ''BRA'') (getScatterData scatter_rows 2020)) = [0]"
proof -
  have arg: "''ARG'' \<in> country_code ` set (nitrogenInput scatter_rows 2020)"
    and bra: "''BRA'' \<in> country_code ` set (nitrogenInput scatter_rows 2020)"
    by (simp_all add: nitrogenInput_scatter_rows sample_row_def)
  have no_bra: "''BRA'' \<notin> country_code ` set (livestockRows scatter_rows 2020)"
    by (simp add: livestockRows_scatter_rows sample_row_def)
  have "foldl (+) 0 (map value_n (filter (\<lambda>d. country_code d = ''ARG'')
          (livestockRows scatter_rows 2020))) = 5"
    by (simp add: livestockRows_scatter_rows sample_row_def)
  with getScatterData_accumulates [OF arg]
  have sum_arg: "map livestock (filter (\<lambda>p. country p = ''ARG'')
      (getScatterData scatter_rows 2020)) = [5]"
    by simp
  from getScatterData_accumulates [OF bra] no_bra
  have zero_bra: "map livestock (filter (\<lambda>p. country p = ''BRA'')
      (getScatterData scatter_rows 2020)) = [0]"
    by blast
  from arg sum_arg bra no_bra zero_bra show ?thesis by blast
qed

text \<open>
  With an associative addition and a neutral \<open>0\<close> (the integers, the rationals, the
  reals) the accumulated field is the sum of the list of values.
\<close>

lemma getScatterData_livestock_sum_list:
  fixes data :: "'n::monoid_add EnvData list"
  assumes "c \<in> country_code ` set (nitrogenInput data y)"
  shows "map livestock (filter (\<lambda>p. country p = c) (getScatterData data y)) =
           [sum_list (map value_n (filter (\<lambda>d. country_code d = c) (livestockRows data y)))]"
  using assms
  by (simp add: getScatterData_def pairs_of_country joinedPair_def foldl_plus_sum_list)

subsection \<open>Left join\<close>

text \<open>
  C4. \<^verbatim>\<open>getScatterData\<close> is a left join on the countries of the first subset: a country
  that is not in the first (nitrogen-input) subset is the country of no pair of the
  output, whatever rows the second (livestock) subset has for it. The function returns
  its list all the same: dropping such rows reports nothing.
\<close>

theorem getScatterData_left_join:
  fixes data :: "'n::{zero,plus} EnvData list"
  assumes "c \<notin> country_code ` set (nitrogenInput data y)"
  shows "c \<notin> country ` set (getScatterData data y)"
proof -
  have "country ` set (getScatterData data y) = set (map country (getScatterData data y))"
    by simp
  also have "\<dots> = country_code ` set (nitrogenInput data y)"
    by (simp only: getScatterData_def countries_joinByCountry set_encounter_order set_map)
  finally show ?thesis using assms by simp
qed

text \<open>
  The fourth scenario of the spec inside the sample rows: Uruguay has a livestock row
  and no nitrogen-input row.
\<close>

theorem getScatterData_left_join_witness:
  "''URY'' \<in> country_code ` set (livestockRows scatter_rows 2020)
   \<and> ''URY'' \<notin> country_code ` set (nitrogenInput scatter_rows 2020)
   \<and> ''URY'' \<notin> country ` set (getScatterData scatter_rows 2020)"
proof -
  have second: "''URY'' \<in> country_code ` set (livestockRows scatter_rows 2020)"
    by (simp add: livestockRows_scatter_rows sample_row_def)
  have first: "''URY'' \<notin> country_code ` set (nitrogenInput scatter_rows 2020)"
    by (simp add: nitrogenInput_scatter_rows sample_row_def)
  from second first getScatterData_left_join [OF first] show ?thesis by blast
qed

subsection \<open>Order of the output\<close>

text \<open>
  C6. The pairs of \<^verbatim>\<open>getScatterData\<close> stand in the insertion order of the lookup map: the
  countries of the output, read from left to right, are the countries of the first
  (nitrogen-input) subset in the order in which each one is met for the first time.
\<close>

theorem getScatterData_insertion_order:
  fixes data :: "'n::{zero,plus} EnvData list"
  shows "map country (getScatterData data y) =
           encounter_order (map country_code (nitrogenInput data y))"
  by (simp only: getScatterData_def countries_joinByCountry)

text \<open>
  In the sample rows the first subset reads Argentina, Brazil, Argentina.
\<close>

theorem getScatterData_insertion_order_witness:
  "map country_code (nitrogenInput scatter_rows 2020) = [''ARG'', ''BRA'', ''ARG'']
   \<and> map country (getScatterData scatter_rows 2020) = [''ARG'', ''BRA'']"
proof -
  have cs: "map country_code (nitrogenInput scatter_rows 2020) = [''ARG'', ''BRA'', ''ARG'']"
    by (simp add: nitrogenInput_scatter_rows sample_row_def)
  from getScatterData_insertion_order [of scatter_rows 2020]
  have "map country (getScatterData scatter_rows 2020) = [''ARG'', ''BRA'']"
    by (simp add: cs)
  with cs show ?thesis by blast
qed

subsection \<open>No country twice\<close>

text \<open>
  C10. The output of \<^verbatim>\<open>getScatterData\<close> has no country twice: the countries of its pairs
  are pairwise distinct, also when the first subset has several rows for a country. The
  \<^verbatim>\<open>nitrogen\<close> field of a pair is then the value of the last row of the first subset for
  the country of the pair.
\<close>

theorem getScatterData_distinct_countries:
  fixes data :: "'n::{zero,plus} EnvData list"
  shows "distinct (map country (getScatterData data y))
         \<and> (\<forall>p \<in> set (getScatterData data y).
              nitrogen p =
                value_n (last (filter (\<lambda>d. country_code d = country p)
                                 (nitrogenInput data y))))"
proof
  show "distinct (map country (getScatterData data y))"
    by (simp only: getScatterData_def countries_joinByCountry distinct_encounter_order)
  show "\<forall>p \<in> set (getScatterData data y).
          nitrogen p =
            value_n (last (filter (\<lambda>d. country_code d = country p) (nitrogenInput data y)))"
    by (auto simp: getScatterData_def joinByCountry_eq joinedPair_def)
qed

text \<open>
  In the sample rows Argentina has the nitrogen-input values 10 and then 11: one pair,
  seeded with 11.
\<close>

theorem getScatterData_distinct_countries_witness:
  "\<lparr>nitrogen = 11, livestock = 5, country = ''ARG''\<rparr> \<in> set (getScatterData scatter_rows 2020)
   \<and> distinct (map country (getScatterData scatter_rows 2020))
   \<and> map value_n (filter (\<lambda>d. country_code d = ''ARG'') (nitrogenInput scatter_rows 2020))
       = [10, 11]
   \<and> value_n (last (filter (\<lambda>d. country_code d = ''ARG'') (nitrogenInput scatter_rows 2020)))
       = 11"
proof -
  let ?p = "\<lparr>nitrogen = 11 :: int, livestock = 5, country = ''ARG''\<rparr>"
  have mem: "?p \<in> set (getScatterData scatter_rows 2020)"
    by (simp add: getScatterData_scatter_rows)
  have vals: "map value_n (filter (\<lambda>d. country_code d = ''ARG'')
      (nitrogenInput scatter_rows 2020)) = [10, 11]"
    by (simp add: nitrogenInput_scatter_rows sample_row_def)
  from getScatterData_distinct_countries [of scatter_rows 2020]
  have dist: "distinct (map country (getScatterData scatter_rows 2020))"
    and seed: "\<forall>p \<in> set (getScatterData scatter_rows 2020).
      nitrogen p = value_n (last (filter (\<lambda>d. country_code d = country p)
        (nitrogenInput scatter_rows 2020)))"
    by blast+
  from seed mem
  have "nitrogen ?p = value_n (last (filter (\<lambda>d. country_code d = country ?p)
      (nitrogenInput scatter_rows 2020)))"
    by (rule bspec)
  then have "value_n (last (filter (\<lambda>d. country_code d = ''ARG'')
      (nitrogenInput scatter_rows 2020))) = 11"
    by simp
  with mem dist vals show ?thesis by blast
qed

section \<open>The year-keyed rows of \<^verbatim>\<open>TimeSeries\<close>\<close>

lemma groupStep_sets:
  "country_code d \<noteq> ''__proto__'' \<Longrightarrow>
     \<exists>row. groupStep g d (year d) = Some row \<and>
           row (country_code d) = Some (ValueCell (value_n d))"
  by (cases "g (year d)") (simp_all add: groupStep_def set_prop_def)

lemma groupStep_keeps:
  "year d \<noteq> y \<or> country_code d \<noteq> c \<Longrightarrow> g y = Some row \<Longrightarrow> row c = Some v \<Longrightarrow>
     \<exists>row'. groupStep g d y = Some row' \<and> row' c = Some v"
  by (cases "g (year d)") (auto simp: groupStep_def set_prop_def)

lemma foldl_groupStep_keeps:
  "\<forall>d \<in> set ds. year d \<noteq> y \<or> country_code d \<noteq> c \<Longrightarrow> g y = Some row \<Longrightarrow>
     row c = Some v \<Longrightarrow>
     \<exists>row'. foldl groupStep g ds y = Some row' \<and> row' c = Some v"
proof (induction ds arbitrary: g row)
  case Nil
  then show ?case by simp
next
  case (Cons d ds)
  from Cons.prems have "year d \<noteq> y \<or> country_code d \<noteq> c" by simp
  from this Cons.prems(2,3) have "\<exists>row'. groupStep g d y = Some row' \<and> row' c = Some v"
    by (rule groupStep_keeps [where g = g and row = row])
  then obtain row' where "groupStep g d y = Some row'" "row' c = Some v" by blast
  moreover from Cons.prems have "\<forall>d \<in> set ds. year d \<noteq> y \<or> country_code d \<noteq> c"
    by simp
  ultimately show ?case using Cons.IH by simp
qed

text \<open>
  The overwrite law of the grouping, for every country code but \<^verbatim>\<open>__proto__\<close>: of two
  kept rows for the same year and country, the later one gives the field of the row of
  that year, when no kept row for that year and country comes after it.
\<close>

lemma TimeSeries_last_wins:
  assumes data: "data = pre @ d1 # mid @ d2 # post"
    and d1: "Measure d1 = ''Producer Nominal Protection Coefficient''"
      "year d1 = y" "country_code d1 = c"
    and d2: "Measure d2 = ''Producer Nominal Protection Coefficient''"
      "year d2 = y" "country_code d2 = c"
    and sel: "c \<in> set selectedCountries"
    and post: "\<forall>d \<in> set post.
      \<not> (Measure d = ''Producer Nominal Protection Coefficient'' \<and> year d = y \<and>
         country_code d = c)"
    and c: "c \<noteq> ''__proto__''"
  shows "\<exists>row. TimeSeries_grouped data selectedCountries y = Some row \<and>
               row c = Some (ValueCell (value_n d2))"
proof -
  let ?P = "\<lambda>d. Measure d = ''Producer Nominal Protection Coefficient'' \<and>
                 country_code d \<in> set selectedCountries"
  let ?g = "foldl groupStep Map.empty (filter ?P (pre @ d1 # mid))"
  have split: "filter ?P data = filter ?P (pre @ d1 # mid) @ d2 # filter ?P post"
    using d2 sel by (simp add: data)
  from groupStep_sets [of d2 ?g] d2 c
  obtain row where row: "groupStep ?g d2 y = Some row"
      "row c = Some (ValueCell (value_n d2))"
    by auto
  from post have "\<forall>d \<in> set (filter ?P post). year d \<noteq> y \<or> country_code d \<noteq> c"
    by auto
  then have "\<exists>row'. foldl groupStep (groupStep ?g d2) (filter ?P post) y = Some row' \<and>
                  row' c = Some (ValueCell (value_n d2))"
    using row by (rule foldl_groupStep_keeps [where g = "groupStep ?g d2" and row = row])
  then show ?thesis by (simp add: TimeSeries_grouped_def split)
qed

text \<open>
  The second scenario of the spec: two rows of Argentina for 2001, the values 9 and
  then 11, give the field 11.
\<close>

lemma TimeSeries_last_wins_ARG:
  "map_option (\<lambda>row. row ''ARG'')
     (TimeSeries_grouped
        [sample_row ''ARG'' ''Producer Nominal Protection Coefficient'' [] 2001 9,
         sample_row ''ARG'' ''Producer Nominal Protection Coefficient'' [] 2001 11]
        [''ARG''] 2001)
   = Some (Some (ValueCell 11))"
proof -
  let ?d1 = "sample_row ''ARG'' ''Producer Nominal Protection Coefficient'' [] 2001 9"
  let ?d2 = "sample_row ''ARG'' ''Producer Nominal Protection Coefficient'' [] 2001 11"
  have "\<exists>row. TimeSeries_grouped [?d1, ?d2] [''ARG''] 2001 = Some row \<and>
              row ''ARG'' = Some (ValueCell (value_n ?d2))"
    by (rule TimeSeries_last_wins [where pre = "[]" and mid = "[]" and post = "[]"
          and ?d1.0 = ?d1])
       (simp_all add: sample_row_def)
  then show ?thesis by (auto simp: sample_row_def)
qed

text \<open>
  C2. The overwrite law of the grouping in \<^verbatim>\<open>TimeSeries\<close> says that of two rows for the same
  year and country, both selected, the value processed last is the field of that country
  in the row of the year. It does not hold for the country code \<^verbatim>\<open>__proto__\<close>: with two
  such rows for 2001, the values 9 and then 11, and \<^verbatim>\<open>__proto__\<close> selected, the row of
  2001 exists and has no field of that name, neither 9 nor 11.
\<close>

theorem TimeSeries_grouped_proto_field_unset:
  "map_option (\<lambda>row. (row ''year'', row ''__proto__''))
     (TimeSeries_grouped
        [sample_row ''__proto__'' ''Producer Nominal Protection Coefficient'' [] 2001 9,
         sample_row ''__proto__'' ''Producer Nominal Protection Coefficient'' [] 2001 11]
        [''__proto__''] 2001)
   = Some (Some (YearCell 2001), None)"
  by code_simp

section \<open>The case of the label and the case of the keyword\<close>









section \<open>The two surplus filters\<close>

text \<open>
  C9. \<^verbatim>\<open>groupByMeasure\<close> and \<^verbatim>\<open>getNutrientSurplusByCountry\<close> compute the same function: for
  every record set, every year and each of the two nutrients \<^verbatim>\<open>Nitrogen\<close> and
  \<^verbatim>\<open>Phosphorus\<close>, \<^verbatim>\<open>groupByMeasure\<close> with the name of the nutrient returns the same list of
  records as \<^verbatim>\<open>getNutrientSurplusByCountry\<close> with the nutrient.
\<close>

theorem groupByMeasure_eq_getNutrientSurplusByCountry:
  "groupByMeasure data (nutrient_name nu) y = getNutrientSurplusByCountry data nu y"
  unfolding groupByMeasure_def getNutrientSurplusByCountry_def
  by (rule filter_cong) auto

text \<open>
  On loaded rows the two functions also fail together: the two tests that come before
  the method call are the same two, in the other order.
\<close>

lemma groupByMeasure_loaded_eq:
  "groupByMeasure_loaded data (nutrient_name nu) y =
     getNutrientSurplusByCountry_loaded data nu y"
  unfolding groupByMeasure_loaded_def getNutrientSurplusByCountry_loaded_def
  by (rule arg_cong [where f = "\<lambda>p. filter_raise p data"]) (auto simp: fun_eq_iff)

section \<open>The empty record set\<close>

text \<open>
  C7. Given the empty record set, each of \<^verbatim>\<open>filterProtectionCoefficient\<close>,
  \<^verbatim>\<open>getNutrientSurplusByCountry\<close>, \<^verbatim>\<open>getScatterData\<close> and \<^verbatim>\<open>groupByMeasure\<close> returns the empty
  list, whatever the other arguments are; on loaded rows too each of them returns the
  empty list and raises nothing.
\<close>

theorem empty_record_set:
  "filterProtectionCoefficient [] = []
   \<and> getNutrientSurplusByCountry [] nu y = []
   \<and> getScatterData [] y = []
   \<and> groupByMeasure [] n y = []
   \<and> filterProtectionCoefficient_loaded [] = Inr []
   \<and> getNutrientSurplusByCountry_loaded [] nu y = Inr []
   \<and> getScatterData_loaded [] y = Inr []
   \<and> groupByMeasure_loaded [] n y = Inr []"
  by (simp add: filterProtectionCoefficient_def getNutrientSurplusByCountry_def
      getScatterData_def groupByMeasure_def joinByCountry_def nitrogenInput_def
      livestockRows_def filterProtectionCoefficient_loaded_def
      getNutrientSurplusByCountry_loaded_def getScatterData_loaded_def
      groupByMeasure_loaded_def)

section \<open>Raising\<close>

lemma filter_raise_total:
  "\<forall>x \<in> set xs. p x = Inr (q x) \<Longrightarrow> filter_raise p xs = Inr (filter q xs)"
  by (induction xs) simp_all

lemma filter_map_loaded:
  "\<forall>d. q (loaded d) = q' d \<Longrightarrow> filter q (map loaded data) = map loaded (filter q' data)"
  by (induction data) simp_all

lemma loaded_simps:
  "country_code (loaded d) = country_code d" "year (loaded d) = year d"
  "value_n (loaded d) = value_n d" "nutrient_type (loaded d) = nutrient_type d"
  "Measure (loaded d) = Some (Measure d)"
  by (simp_all add: loaded_def)

lemma seedEntry_loaded: "seedEntry m (loaded x) = seedEntry m x"
  by (simp add: seedEntry_def loaded_simps)

lemma addLivestock_loaded: "addLivestock m (loaded x) = addLivestock m x"
  by (simp add: addLivestock_def loaded_simps split: option.split)

lemma seed_loaded: "foldl seedEntry m (map loaded xs) = foldl seedEntry m xs"
  by (induction xs arbitrary: m) (simp_all add: seedEntry_loaded)

lemma accumulate_loaded: "foldl addLivestock m (map loaded ys) = foldl addLivestock m ys"
  by (induction ys arbitrary: m) (simp_all add: addLivestock_loaded)

lemma joinByCountry_loaded:
  "joinByCountry (map loaded xs) (map loaded ys) = joinByCountry xs ys"
  by (simp add: joinByCountry_def seed_loaded accumulate_loaded)

lemma filterProtectionCoefficient_loaded_typed:
  "filterProtectionCoefficient_loaded (map loaded data) =
     Inr (filterProtectionCoefficient data)"
  by (simp add: filterProtectionCoefficient_loaded_def filterProtectionCoefficient_def
      filter_map_loaded
        [where q' = "\<lambda>d. Measure d = ''Producer Nominal Protection Coefficient''"]
      loaded_simps comp_def)

lemma getNutrientSurplusByCountry_loaded_typed:
  "getNutrientSurplusByCountry_loaded (map loaded data) nu y =
     Inr (map loaded (getNutrientSurplusByCountry data nu y))"
proof -
  let ?q = "\<lambda>d. year d = y \<and> nutrient_type d = nutrient_name nu \<and>
       (case Measure d of None \<Rightarrow> False
        | Some s \<Rightarrow> includes_str (toLowerCase s) ''surplus'')"
  have "getNutrientSurplusByCountry_loaded (map loaded data) nu y =
          Inr (filter ?q (map loaded data))"
    unfolding getNutrientSurplusByCountry_loaded_def
    by (rule filter_raise_total) (auto simp: measureIncludes_def loaded_simps)
  also have "filter ?q (map loaded data) = map loaded (getNutrientSurplusByCountry data nu y)"
    unfolding getNutrientSurplusByCountry_def
    by (rule filter_map_loaded) (simp add: loaded_simps)
  finally show ?thesis .
qed

lemma groupByMeasure_loaded_typed:
  "groupByMeasure_loaded (map loaded data) n y = Inr (map loaded (groupByMeasure data n y))"
proof -
  let ?q = "\<lambda>d. nutrient_type d = n \<and> year d = y \<and>
       (case Measure d of None \<Rightarrow> False
        | Some s \<Rightarrow> includes_str (toLowerCase s) ''surplus'')"
  have "groupByMeasure_loaded (map loaded data) n y = Inr (filter ?q (map loaded data))"
    unfolding groupByMeasure_loaded_def
    by (rule filter_raise_total) (auto simp: measureIncludes_def loaded_simps)
  also have "filter ?q (map loaded data) = map loaded (groupByMeasure data n y)"
    unfolding groupByMeasure_def
    by (rule filter_map_loaded) (simp add: loaded_simps)
  finally show ?thesis .
qed

lemma getScatterData_loaded_typed:
  "getScatterData_loaded (map loaded data) y = Inr (getScatterData data y)"
proof -
  let ?q1 = "\<lambda>d. nutrient_type d = ''Nitrogen'' \<and>
       (case Measure d of None \<Rightarrow> False
        | Some s \<Rightarrow> includes_str (toLowerCase s) ''input'') \<and> year d = y"
  let ?q2 = "\<lambda>d. (case Measure d of None \<Rightarrow> False
        | Some s \<Rightarrow> includes_str (toLowerCase s) ''livestock'') \<and> year d = y"
  have 1: "filter_raise
             (\<lambda>d. if nutrient_type d = ''Nitrogen''
                   then (case measureIncludes (Measure d) ''input'' of
                           Inl e \<Rightarrow> Inl e
                         | Inr b \<Rightarrow> Inr (b \<and> year d = y))
                   else Inr False) (map loaded data) =
           Inr (filter ?q1 (map loaded data))"
    by (rule filter_raise_total) (auto simp: measureIncludes_def loaded_simps)
  have 2: "filter_raise
             (\<lambda>d. case measureIncludes (Measure d) ''livestock'' of
                     Inl e \<Rightarrow> Inl e
                   | Inr b \<Rightarrow> Inr (b \<and> year d = y)) (map loaded data) =
           Inr (filter ?q2 (map loaded data))"
    by (rule filter_raise_total) (auto simp: measureIncludes_def loaded_simps)
  have 3: "filter ?q1 (map loaded data) = map loaded (nitrogenInput data y)"
    unfolding nitrogenInput_def
    by (rule filter_map_loaded) (simp add: loaded_simps)
  have 4: "filter ?q2 (map loaded data) = map loaded (livestockRows data y)"
    unfolding livestockRows_def
    by (rule filter_map_loaded) (simp add: loaded_simps)
  show ?thesis
    by (simp add: getScatterData_loaded_def 1 2 3 4 joinByCountry_loaded getScatterData_def)
qed

text \<open>
  C8 as it is stated, for every record set with malformed or missing fields, fails. A
  loaded row without a \<^verbatim>\<open>Measure\<close>, of the nutrient type \<^verbatim>\<open>Nitrogen\<close>: \<^verbatim>\<open>getScatterData\<close>
  reaches \<^verbatim>\<open>d.Measure.toLowerCase()\<close> on it and the \<^verbatim>\<open>TypeError\<close> leaves the function.
\<close>

theorem getScatterData_raises_on_missing_Measure:
  "getScatterData_loaded [sample_row ''ARG'' None ''Nitrogen'' 2020 1] 2020 = Inl TypeError"
  by code_simp

text \<open>
  C8, amended. On every record set whose rows have the type \<^verbatim>\<open>EnvData\<close> (the \<^verbatim>\<open>Measure\<close> of
  each row is a string), whatever the strings and numbers in the fields and whatever the
  other arguments, none of \<^verbatim>\<open>filterProtectionCoefficient\<close>, \<^verbatim>\<open>getNutrientSurplusByCountry\<close>,
  \<^verbatim>\<open>groupByMeasure\<close> and \<^verbatim>\<open>getScatterData\<close> raises: each returns normally, and what it
  returns is the result of the function on the typed rows, which rejects no row for a
  value it carries. The two surplus filters return rows of the input as they are.
\<close>

theorem no_raise_on_EnvData:
  fixes data :: "'n::{zero,plus} EnvData list"
  shows "filterProtectionCoefficient_loaded (map loaded data) =
           Inr (filterProtectionCoefficient data)
         \<and> getNutrientSurplusByCountry_loaded (map loaded data) nu y =
             Inr (map loaded (getNutrientSurplusByCountry data nu y))
         \<and> groupByMeasure_loaded (map loaded data) n y =
             Inr (map loaded (groupByMeasure data n y))
         \<and> getScatterData_loaded (map loaded data) y = Inr (getScatterData data y)
         \<and> set (getNutrientSurplusByCountry data nu y) \<subseteq> set data
         \<and> set (groupByMeasure data n y) \<subseteq> set data"
  by (simp add: filterProtectionCoefficient_loaded_typed
      getNutrientSurplusByCountry_loaded_typed groupByMeasure_loaded_typed
      getScatterData_loaded_typed getNutrientSurplusByCountry_def groupByMeasure_def)

end
